theory Spec2Isabelle
  imports Complex_Main
begin

section \<open>Values and errors\<close>

text \<open>
  The model of \<^verbatim>\<open>KnowledgeSelection/Model/model.py\<close>, class
  \<^verbatim>\<open>KnowledgeSelectionModel\<close>. Floating-point numbers are modelled as reals, Python's
  integers as \<open>int\<close> (or \<open>nat\<close> for a length), strings as \<open>string\<close>.

  The configuration \<^verbatim>\<open>opt\<close> is read from a JSON file (\<^verbatim>\<open>main.py\<close>), so its values are
  JSON values.
\<close>

datatype pyval =
    PNone
  | PBool bool
  | PInt int
  | PFloat real
  | PStr string
  | PList "pyval list"
  | PDict "(string \<times> pyval) list"

datatype error =
    KeyError string
  | TypeError
  | ValueError
  | UnboundLocalError string
  | ZeroDivisionError

type_synonym config = "string \<rightharpoonup> pyval"

text \<open>\<^verbatim>\<open>opt[k]\<close>: a missing key raises \<^verbatim>\<open>KeyError\<close>.\<close>

definition getitem :: "config \<Rightarrow> string \<Rightarrow> error + pyval" where
  "getitem opt k = (case opt k of None \<Rightarrow> Inl (KeyError k) | Some v \<Rightarrow> Inr v)"

text \<open>Python's truth value of an object (\<^verbatim>\<open>if self.early_stop:\<close>).\<close>

fun truthy :: "pyval \<Rightarrow> bool" where
  "truthy PNone = False"
| "truthy (PBool b) = b"
| "truthy (PInt n) = (n \<noteq> 0)"
| "truthy (PFloat r) = (r \<noteq> 0)"
| "truthy (PStr s) = (s \<noteq> [])"
| "truthy (PList xs) = (xs \<noteq> [])"
| "truthy (PDict kvs) = (kvs \<noteq> [])"

text \<open>
  The argument of \<^verbatim>\<open>range\<close> must be an integer; \<^verbatim>\<open>bool\<close> is a subclass of \<^verbatim>\<open>int\<close>.
  Anything else raises \<^verbatim>\<open>TypeError\<close>.
\<close>

fun as_index :: "pyval \<Rightarrow> error + int" where
  "as_index (PInt n) = Inr n"
| "as_index (PBool b) = Inr (if b then 1 else 0)"
| "as_index _ = Inl TypeError"

text \<open>
  \<^verbatim>\<open>a, b, c = v\<close>: the value is iterated and must give exactly three items. A string
  gives its characters, a dictionary its keys.
\<close>

fun unpack3 :: "pyval \<Rightarrow> error + (pyval \<times> pyval \<times> pyval)" where
  "unpack3 (PList [a, b, c]) = Inr (a, b, c)"
| "unpack3 (PList _) = Inl ValueError"
| "unpack3 (PStr [a, b, c]) = Inr (PStr [a], PStr [b], PStr [c])"
| "unpack3 (PStr _) = Inl ValueError"
| "unpack3 (PDict [a, b, c]) = Inr (PStr (fst a), PStr (fst b), PStr (fst c))"
| "unpack3 (PDict _) = Inl ValueError"
| "unpack3 _ = Inl TypeError"

text \<open>Sequencing of computations that may raise: the first error ends the computation.\<close>

definition bind :: "error + 'a \<Rightarrow> ('a \<Rightarrow> error + 'b) \<Rightarrow> error + 'b" where
  "bind r f = (case r of Inl e \<Rightarrow> Inl e | Inr x \<Rightarrow> f x)"

fun map_err :: "('a \<Rightarrow> error + 'b) \<Rightarrow> 'a list \<Rightarrow> error + 'b list" where
  "map_err f [] = Inr []"
| "map_err f (x # xs) = bind (f x) (\<lambda>y. bind (map_err f xs) (\<lambda>ys. Inr (y # ys)))"

section \<open>Tensors, batches and collaborators\<close>

text \<open>
  A tensor is a number or a sequence of tensors. \<^verbatim>\<open>model.py\<close> builds tensors of zeros
  and otherwise hands tensors from one collaborator to the next.
\<close>

datatype tensor = Num real | Ten "tensor list"

text \<open>The per-example rewards of one hop, summed by \<^verbatim>\<open>torch.sum\<close>.\<close>

type_synonym rewards = "real list"

text \<open>The accuracies at the cut-offs 1, 5, 10 and All.\<close>

type_synonym topk = "real \<times> real \<times> real \<times> real"

text \<open>The node, knowledge and pool terms of the reward, each per example.\<close>

type_synonym detail = "real list \<times> real list \<times> real list"

text \<open>One row of the loss breakdown: walk, node and knowledge loss.\<close>

type_synonym loss_row = "real \<times> real \<times> real"

text \<open>A knowledge pool: for each example of the batch, the ids of the selected items.\<close>

type_synonym pool = "string list list"

text \<open>The tuple \<^verbatim>\<open>(prob, current_reward, node_nll, knowledge_nll)\<close> appended for each hop.\<close>

type_synonym hop_result = "tensor \<times> rewards \<times> real \<times> real"

record batch =
  embedding :: tensor
  root_node :: "string list"
  nodes :: "string list list"
  adj :: tensor
  label :: tensor
  gold_k :: "string list list"
  gold_n :: "string list list"

text \<open>
  The collaborators are defined outside \<^verbatim>\<open>model.py\<close> (\<^verbatim>\<open>module.py\<close>, \<^verbatim>\<open>GATv2.py\<close>,
  \<^verbatim>\<open>Node.py\<close>, \<^verbatim>\<open>Knowledge.py\<close>, \<^verbatim>\<open>model_utils.py\<close>, and the torch library), so they are
  parameters of the model. Each may raise. The network modules and the reward function
  also read and write a state \<open>'w\<close> that is not a field of the model: the random
  generator the node selector samples from, dropout, buffers of the modules.
\<close>

record 'w collaborators =
  inputlayer :: "'w \<Rightarrow> tensor \<Rightarrow> error + ('w \<times> tensor)"
  get_knowledge_embedding :: "string list \<Rightarrow> error + (string \<rightharpoonup> tensor) list"
  torch_stack :: "tensor list \<Rightarrow> error + tensor"
  pad_sequence :: "tensor list \<Rightarrow> error + tensor"
  gvt :: "'w \<Rightarrow> tensor \<Rightarrow> tensor \<Rightarrow> error + ('w \<times> tensor)"
  node_selector ::
    "'w \<Rightarrow> string list list \<times> tensor \<times> tensor \<Rightarrow> tensor \<Rightarrow> tensor \<Rightarrow> tensor
      \<Rightarrow> string list \<times> tensor \<times> tensor \<Rightarrow> bool \<Rightarrow> real
      \<Rightarrow> error + ('w \<times> tensor \<times> string list \<times> tensor \<times> tensor \<times> tensor \<times> real)"
  knowledge_selector ::
    "'w \<Rightarrow> string list list \<times> string list list \<Rightarrow> tensor \<Rightarrow> tensor \<Rightarrow> real
      \<Rightarrow> error + ('w \<times> pool \<times> real \<times> tensor \<times> real)"
  reward_function ::
    "'w \<Rightarrow> pyval \<Rightarrow> pyval \<Rightarrow> pyval \<Rightarrow> pyval \<Rightarrow> string list list \<Rightarrow> string list list
      \<Rightarrow> string list \<Rightarrow> pool \<Rightarrow> tensor
      \<Rightarrow> error + ('w \<times> rewards \<times> topk \<times> detail)"
  loss_function :: "hop_result list \<Rightarrow> error + (real list \<times> loss_row list)"

section \<open>The model object\<close>

text \<open>
  A floating-point value that may be NaN. Every number is modelled as a real; NaN
  is added for the one place where \<^verbatim>\<open>model.py\<close> itself makes one without raising, the
  mean of an empty row in \<^verbatim>\<open>log_outputs\<close>. NaN is contagious in sums and quotients.
\<close>

datatype npfloat = Val real | NaN

fun np_add :: "npfloat \<Rightarrow> npfloat \<Rightarrow> npfloat" where
  "np_add (Val x) (Val y) = Val (x + y)"
| "np_add _ _ = NaN"

fun np_div :: "npfloat \<Rightarrow> real \<Rightarrow> npfloat" where
  "np_div (Val x) d = Val (x / d)"
| "np_div NaN d = NaN"

text \<open>One entry of \<^verbatim>\<open>training_step_outputs\<close>.\<close>

type_synonym step_output = "topk \<times> nat \<times> real \<times> detail \<times> loss_row list \<times> nat"

text \<open>
  The fields of \<^verbatim>\<open>self\<close> that \<^verbatim>\<open>model.py\<close> reads or assigns. \<open>training\<close> is the mode flag
  of the module (set at construction, switched by \<^verbatim>\<open>train()\<close> and \<^verbatim>\<open>eval()\<close>); \<open>logged\<close>
  collects the calls of \<^verbatim>\<open>self.log\<close>. The fields holding collaborators are the record
  \<open>collaborators\<close> above: no method assigns them.
\<close>

record model =
  opt :: config
  batch_size :: pyval
  max_hops :: pyval
  label_smoothing_rate :: real
  avg_pool_size :: real
  early_stop :: pyval
  base_poolsize :: pyval
  node_reward :: pyval
  knowledge_reward :: pyval
  pool_reward :: pyval
  precision :: pyval
  mask_value :: real
  training :: bool
  training_step_outputs :: "step_output list"
  logged :: "(string \<times> npfloat) list"

text \<open>
  \<^verbatim>\<open>__init__\<close>, lines 19 to 33 and 47. Lines 35 to 45 construct the collaborators, the
  optimizer and the scheduler from \<^verbatim>\<open>opt\<close> and the mask: the parameter \<open>build\<close>, which
  may raise. Seeding the random generator (line 16) acts on the state of the
  collaborators only, which every forward pass takes as an argument.
\<close>

definition init ::
  "(config \<Rightarrow> real \<Rightarrow> error + 'w collaborators) \<Rightarrow> config \<Rightarrow> error + (model \<times> 'w collaborators)"
where
  "init build opt' =
     bind (getitem opt' ''batch_size'') (\<lambda>bs.
     bind (getitem opt' ''max_hops'') (\<lambda>mh.
     bind (getitem opt' ''early_stop'') (\<lambda>es.
     bind (getitem opt' ''base_poolsize'') (\<lambda>bp.
     bind (getitem opt' ''reward'') (\<lambda>rw.
     bind (unpack3 rw) (\<lambda>(nr, kr, pr).
     bind (getitem opt' ''precision'') (\<lambda>prec.
     let mask' = (if prec = PStr ''16'' then - 60000 else - 1000000) in
     bind (build opt' mask') (\<lambda>cs.
     Inr (\<lparr> opt = opt', batch_size = bs, max_hops = mh,
            label_smoothing_rate = 15 / 100, avg_pool_size = 0, early_stop = es,
            base_poolsize = bp, node_reward = nr, knowledge_reward = kr, pool_reward = pr,
            precision = prec, mask_value = mask', training = True,
            training_step_outputs = [], logged = [] \<rparr>, cs)))))))))"

section \<open>The forward pass\<close>

text \<open>
  The variables that only the body of the hop loop binds. Before the first iteration
  they are unbound.
\<close>

record hop_vars =
  prob :: tensor
  node_nll :: real
  knowledge_pool :: pool
  knowledge_nll :: real
  raw_kp :: tensor
  mean_k :: real
  current_reward :: rewards
  topk_acc :: topk
  reward_detail :: detail

text \<open>The local variables of \<^verbatim>\<open>forward\<close> that the loop reads and assigns.\<close>

record locals =
  agent_state :: tensor
  current_node :: "string list"
  current_activation :: tensor
  current_score :: tensor
  result :: "hop_result list"
  bound :: "hop_vars option"

text \<open>\<^verbatim>\<open>torch.zeros(batch["nodes"].shape)\<close>: a zero for every entry of the node array.\<close>

definition zeros :: "string list list \<Rightarrow> tensor" where
  "zeros ns = Ten (map (\<lambda>row. Ten (map (\<lambda>_. Num 0) row)) ns)"

text \<open>\<^verbatim>\<open>get_node_state\<close>, lines 50 to 54.\<close>

definition get_node_state :: "'w collaborators \<Rightarrow> string list \<Rightarrow> error + tensor" where
  "get_node_state cs ns =
     bind (get_knowledge_embedding cs ns) (\<lambda>node_embedding.
     bind (map_err (\<lambda>d. case d ''avg_pool'' of None \<Rightarrow> Inl (KeyError ''avg_pool'')
                                                | Some t \<Rightarrow> Inr t) node_embedding) (\<lambda>ts.
     torch_stack cs ts))"

text \<open>
  Lines 58 to 68 of \<^verbatim>\<open>forward\<close>: what is computed once, before the hops. The padding
  entries of the node array are empty strings.
\<close>

definition prelude ::
  "'w collaborators \<Rightarrow> model \<Rightarrow> 'w \<Rightarrow> batch \<Rightarrow> error + ('w \<times> tensor \<times> tensor \<times> locals)"
where
  "prelude cs m w b =
     bind (inputlayer cs w (embedding b)) (\<lambda>(w1, input_info).
     bind (getitem (opt m) ''device'') (\<lambda>device.
     bind (map_err (\<lambda>n. get_node_state cs (filter (\<lambda>s. s \<noteq> []) n)) (nodes b)) (\<lambda>states.
     bind (pad_sequence cs states) (\<lambda>padded.
     bind (gvt cs w1 padded (adj b)) (\<lambda>(w2, all_node_embedding).
     Inr (w2, input_info, all_node_embedding,
          \<lparr> agent_state = input_info, current_node = root_node b,
            current_activation = zeros (nodes b), current_score = zeros (nodes b),
            result = [], bound = None \<rparr>))))))"

text \<open>One iteration of the loop body, lines 70 to 80.\<close>

definition hop ::
  "'w collaborators \<Rightarrow> model \<Rightarrow> batch \<Rightarrow> tensor \<Rightarrow> tensor \<Rightarrow> 'w \<Rightarrow> locals
    \<Rightarrow> error + ('w \<times> locals)"
where
  "hop cs m b all_node_embedding input_info w l =
     bind (node_selector cs w (nodes b, adj b, label b) all_node_embedding input_info
             (agent_state l) (current_node l, current_activation l, current_score l)
             (training m) (label_smoothing_rate m))
       (\<lambda>(w1, agent_state', current_node', current_activation', current_score', prob', node_nll').
     bind (knowledge_selector cs w1 (gold_k b, nodes b) agent_state' current_score'
             (label_smoothing_rate m))
       (\<lambda>(w2, knowledge_pool', knowledge_nll', raw_kp', mean_k').
     bind (reward_function cs w2 (node_reward m) (knowledge_reward m) (pool_reward m)
             (base_poolsize m) (gold_k b) (gold_n b) current_node' knowledge_pool' raw_kp')
       (\<lambda>(w3, current_reward', topk_acc', reward_detail').
     Inr (w3,
          \<lparr> agent_state = agent_state', current_node = current_node',
            current_activation = current_activation', current_score = current_score',
            result = result l @ [(prob', current_reward', node_nll', knowledge_nll')],
            bound = Some \<lparr> prob = prob', node_nll = node_nll',
                           knowledge_pool = knowledge_pool', knowledge_nll = knowledge_nll',
                           raw_kp = raw_kp', mean_k = mean_k',
                           current_reward = current_reward', topk_acc = topk_acc',
                           reward_detail = reward_detail' \<rparr> \<rparr>))))"

text \<open>
  The condition of the \<^verbatim>\<open>break\<close>, lines 82 to 84, on the variables as the iteration left
  them.
\<close>

definition stops :: "model \<Rightarrow> locals \<Rightarrow> bool" where
  "stops m l =
     (truthy (early_stop m) \<and>
      (case bound l of None \<Rightarrow> False | Some v \<Rightarrow> mean_k v < avg_pool_size m))"

text \<open>
  The loop \<^verbatim>\<open>for step in range(0, self.max_hops)\<close>; the argument after the tensors is
  the number of iterations that remain. The body does not read \<^verbatim>\<open>step\<close>.
\<close>

fun hop_loop ::
  "'w collaborators \<Rightarrow> model \<Rightarrow> batch \<Rightarrow> tensor \<Rightarrow> tensor \<Rightarrow> nat \<Rightarrow> 'w \<Rightarrow> locals
    \<Rightarrow> error + ('w \<times> locals)"
where
  "hop_loop cs m b e i 0 w l = Inr (w, l)"
| "hop_loop cs m b e i (Suc n) w l =
     bind (hop cs m b e i w l) (\<lambda>(w', l').
       if stops m l' then Inr (w', l') else hop_loop cs m b e i n w' l')"

text \<open>Lines 58 to 84: the prelude and the loop.\<close>

definition walk :: "'w collaborators \<Rightarrow> model \<Rightarrow> 'w \<Rightarrow> batch \<Rightarrow> error + ('w \<times> locals)" where
  "walk cs m w b =
     bind (prelude cs m w b) (\<lambda>(w2, input_info, all_node_embedding, l0).
     bind (as_index (max_hops m)) (\<lambda>n.
     hop_loop cs m b all_node_embedding input_info (nat n) w2 l0))"

text \<open>
  The tuple \<^verbatim>\<open>forward\<close> returns:
  \<^verbatim>\<open>(result, topk_acc, pool_size, reward, reward_detail, knowledge_pool, raw_kp)\<close>.
\<close>

type_synonym forward_result =
  "hop_result list \<times> topk \<times> nat \<times> real \<times> detail \<times> pool \<times> tensor"

text \<open>
  \<^verbatim>\<open>forward\<close>. After the loop, line 86 reads \<^verbatim>\<open>knowledge_pool\<close>, which is unbound when no
  iteration ran. Line 90 divides by the number of examples. The result is the model
  with the field assigned, the state of the collaborators and the returned tuple.
\<close>

definition forward ::
  "'w collaborators \<Rightarrow> model \<Rightarrow> 'w \<Rightarrow> batch \<Rightarrow> error + (model \<times> 'w \<times> forward_result)"
where
  "forward cs m w b =
     bind (walk cs m w b) (\<lambda>(w', l).
     case bound l of
       None \<Rightarrow> Inl (UnboundLocalError ''knowledge_pool'')
     | Some v \<Rightarrow>
         let pool_size = sum_list (map length (knowledge_pool v));
             reward = sum_list (current_reward v);
             ret = (result l, topk_acc v, pool_size, reward, reward_detail v,
                    knowledge_pool v, raw_kp v)
         in if \<not> training m
            then (if length (knowledge_pool v) = 0 then Inl ZeroDivisionError
                  else Inr (m\<lparr>avg_pool_size :=
                                real pool_size / real (length (knowledge_pool v))\<rparr>, w', ret))
            else Inr (m, w', ret))"

section \<open>Training step and epoch logging\<close>

text \<open>
  \<^verbatim>\<open>training_step\<close>, lines 97 to 106. \<^verbatim>\<open>sum(loss) / num_steps\<close> raises when the list of
  losses is empty. The loss breakdown is an array, divided entry by entry.
\<close>

definition training_step ::
  "'w collaborators \<Rightarrow> model \<Rightarrow> 'w \<Rightarrow> batch \<Rightarrow> nat \<Rightarrow> error + (model \<times> 'w \<times> real)"
where
  "training_step cs m w b batch_idx =
     bind (forward cs m w b)
       (\<lambda>(m1, w1, result', topk_acc', pool_size', reward', reward_detail', knowledge_pool', raw_kp').
     bind (loss_function cs result') (\<lambda>(loss, loss_detail).
     let num_steps = length loss in
     if num_steps = 0 then Inl ZeroDivisionError
     else
       let loss' = sum_list loss / real num_steps;
           loss_detail' = map (\<lambda>(x, y, z). (x / real num_steps, y / real num_steps,
                                                z / real num_steps)) loss_detail
       in Inr (m1\<lparr> logged := logged m1 @ [(''Train Loss'', Val loss')],
                    training_step_outputs := training_step_outputs m1 @
                      [(topk_acc', pool_size', reward', reward_detail', loss_detail',
                        num_steps)] \<rparr>,
               w1, loss')))"

text \<open>
  The sums \<^verbatim>\<open>log_outputs\<close> keeps while it goes through the step outputs, in the order
  \<^verbatim>\<open>loss_detail\<close>, \<^verbatim>\<open>reward_detail\<close>, \<^verbatim>\<open>acc\<close>, \<^verbatim>\<open>avg_pool_size\<close>, \<^verbatim>\<open>avg_steps\<close>, \<^verbatim>\<open>reward\<close>,
  \<^verbatim>\<open>cnt\<close>.
\<close>

type_synonym totals =
  "loss_row \<times> (npfloat \<times> npfloat \<times> npfloat) \<times> topk \<times> real \<times> real \<times> real \<times> nat"

text \<open>\<^verbatim>\<open>np.sum(batch_loss_detail, axis=0)\<close>: the sum of each column.\<close>

definition np_sum_axis0 :: "loss_row list \<Rightarrow> loss_row" where
  "np_sum_axis0 rows =
     (sum_list (map fst rows), sum_list (map (fst \<circ> snd) rows), sum_list (map (snd \<circ> snd) rows))"

text \<open>
  \<^verbatim>\<open>np.mean(batch_reward_detail, axis=1)\<close>: the mean of each row. Rows of different
  lengths are no array. The mean of an empty row is NaN: numpy warns and goes on.
\<close>

definition np_mean_axis1 :: "detail \<Rightarrow> error + (npfloat \<times> npfloat \<times> npfloat)" where
  "np_mean_axis1 d =
     (case d of (x, y, z) \<Rightarrow>
        if length x \<noteq> length y \<or> length y \<noteq> length z then Inl ValueError
        else if x = [] then Inr (NaN, NaN, NaN)
        else Inr (Val (sum_list x / real (length x)), Val (sum_list y / real (length y)),
                  Val (sum_list z / real (length z))))"

text \<open>The body of the loop of \<^verbatim>\<open>log_outputs\<close>, lines 148 to 156.\<close>

definition add_output :: "step_output \<Rightarrow> totals \<Rightarrow> error + totals" where
  "add_output output t =
     (case (output, t) of
        ((topk_acc', pool_size, batch_reward, batch_reward_detail, batch_loss_detail, num_steps),
         ((l1, l2, l3), (r1, r2, r3), (a1, a2, a3, a4), pool', steps', reward', cnt)) \<Rightarrow>
          (case np_sum_axis0 batch_loss_detail of (s1, s2, s3) \<Rightarrow>
           bind (np_mean_axis1 batch_reward_detail) (\<lambda>(m1, m2, m3).
           (case topk_acc' of (t1, t2, t3, t4) \<Rightarrow>
              Inr ((l1 + s1, l2 + s2, l3 + s3), (np_add r1 m1, np_add r2 m2, np_add r3 m3),
                   (a1 + t1, a2 + t2, a3 + t3, a4 + t4),
                   pool' + real pool_size, steps' + real num_steps, reward' + batch_reward,
                   Suc cnt)))))"

text \<open>The loop of \<^verbatim>\<open>log_outputs\<close>, line 147.\<close>

fun accumulate :: "step_output list \<Rightarrow> totals \<Rightarrow> error + totals" where
  "accumulate [] t = Inr t"
| "accumulate (output # rest) t = bind (add_output output t) (accumulate rest)"

text \<open>
  \<^verbatim>\<open>log_outputs\<close>, lines 139 to 176. With \<^verbatim>\<open>num > 0\<close> and no step output,
  \<^verbatim>\<open>avg_steps /= cnt\<close> divides the integer 0 by the integer 0 and raises.
\<close>

definition log_outputs :: "model \<Rightarrow> step_output list \<Rightarrow> string \<Rightarrow> int \<Rightarrow> error + model" where
  "log_outputs m step_outputs split num =
     bind (accumulate step_outputs
             ((0, 0, 0), (Val 0, Val 0, Val 0), (0, 0, 0, 0), 0, 0, 0, 0))
       (\<lambda>((l1, l2, l3), (r1, r2, r3), (a1, a2, a3, a4), pool', steps', reward', cnt).
     bind (if num > 0
           then (if cnt = 0 then Inl ZeroDivisionError
                 else Inr ((l1 / real cnt, l2 / real cnt, l3 / real cnt),
                           (np_div r1 (real cnt), np_div r2 (real cnt), np_div r3 (real cnt)),
                           (a1 / real_of_int num, a2 / real_of_int num,
                            a3 / real_of_int num, a4 / real_of_int num),
                           pool' / real_of_int num, steps' / real cnt,
                           reward' / real_of_int num))
           else Inr ((l1, l2, l3), (r1, r2, r3), (a1, a2, a3, a4), pool', steps', reward'))
       (\<lambda>((l1, l2, l3), (r1, r2, r3), (a1, a2, a3, a4), pool', steps', reward').
     let m1 = (if training m then m\<lparr>avg_pool_size := pool'\<rparr> else m) in
     Inr (m1\<lparr> logged := logged m1 @
                 [(split @ '' reward'', Val reward'),
                  (split @ '' avg_pool_size'', Val pool'),
                  (split @ '' avg_steps'', Val steps'),
                  (split @ '' top-1'', Val a1), (split @ '' top-5'', Val a2),
                  (split @ '' top-10'', Val a3), (split @ '' top-All'', Val a4),
                  (split @ '' Walk Loss'', Val l1), (split @ '' Node Loss'', Val l2),
                  (split @ '' Knowledge Loss'', Val l3),
                  (split @ '' Node reward'', r1), (split @ '' Knowledge reward'', r2),
                  (split @ '' Pool reward'', r3)] \<rparr>)))"

section \<open>Observing the calls of a forward pass\<close>

text \<open>
  What a collaborator received and returned in one call: the training flag and the
  smoothing rate given to the node selector; the smoothing rate given to the knowledge
  selector and the pool, raw scores and mean pool size it returned; the reward, the
  accuracies and the reward breakdown the reward function returned.
\<close>

datatype call =
    NodeCall bool real
  | PoolCall real pool tensor real
  | RewardCall rewards topk detail

text \<open>
  The same collaborators, each call to the two selectors and to the reward function
  written to a journal that is carried in the state beside the collaborators' own.
  The model is run unchanged; properties of its calls are read off the journal.
\<close>

definition observe :: "'w collaborators \<Rightarrow> ('w \<times> call list) collaborators" where
  "observe cs =
     \<lparr> inputlayer = (\<lambda>(w, j) x. bind (inputlayer cs w x) (\<lambda>(w', y). Inr ((w', j), y))),
       get_knowledge_embedding = get_knowledge_embedding cs,
       torch_stack = torch_stack cs,
       pad_sequence = pad_sequence cs,
       gvt = (\<lambda>(w, j) x a. bind (gvt cs w x a) (\<lambda>(w', y). Inr ((w', j), y))),
       node_selector = (\<lambda>(w, j) g e i a s tr r.
         bind (node_selector cs w g e i a s tr r)
           (\<lambda>(w', y). Inr ((w', j @ [NodeCall tr r]), y))),
       knowledge_selector = (\<lambda>(w, j) g a s r.
         bind (knowledge_selector cs w g a s r)
           (\<lambda>(w', kp, nll, raw, mk). Inr ((w', j @ [PoolCall r kp raw mk]), kp, nll, raw, mk))),
       reward_function = (\<lambda>(w, j) nr kr pr bp gk gn cn kp raw.
         bind (reward_function cs w nr kr pr bp gk gn cn kp raw)
           (\<lambda>(w', cr, acc, det). Inr ((w', j @ [RewardCall cr acc det]), cr, acc, det))),
       loss_function = loss_function cs \<rparr>"

text \<open>The mean pool sizes the knowledge selector reported, hop by hop.\<close>

fun pool_means :: "call list \<Rightarrow> real list" where
  "pool_means [] = []"
| "pool_means (PoolCall r kp raw mk # cs) = mk # pool_means cs"
| "pool_means (_ # cs) = pool_means cs"

text \<open>The smoothing rates the two selectors received, call by call.\<close>

fun rates :: "call list \<Rightarrow> real list" where
  "rates [] = []"
| "rates (NodeCall tr r # cs) = r # rates cs"
| "rates (PoolCall r kp raw mk # cs) = r # rates cs"
| "rates (_ # cs) = rates cs"

text \<open>The calls one hop makes, given the variables it binds, and the tuple it appends.\<close>

definition hop_calls :: "model \<Rightarrow> hop_vars \<Rightarrow> call list" where
  "hop_calls m v =
     [NodeCall (training m) (label_smoothing_rate m),
      PoolCall (label_smoothing_rate m) (knowledge_pool v) (raw_kp v) (mean_k v),
      RewardCall (current_reward v) (topk_acc v) (reward_detail v)]"

definition hop_tuple :: "hop_vars \<Rightarrow> hop_result" where
  "hop_tuple v = (prob v, current_reward v, node_nll v, knowledge_nll v)"

text \<open>
  The loop variables and the result list agree: no hop has run and the list is empty,
  or the last tuple of the list is made of the variables as they are bound.
\<close>

definition linked :: "locals \<Rightarrow> bool" where
  "linked l =
     (case bound l of None \<Rightarrow> result l = []
      | Some v \<Rightarrow> result l \<noteq> [] \<and> last (result l) = hop_tuple v)"

text \<open>The reward tensors the reward function returned, hop by hop.\<close>

fun call_rewards :: "call list \<Rightarrow> rewards list" where
  "call_rewards [] = []"
| "call_rewards (RewardCall cr acc det # cs) = cr # call_rewards cs"
| "call_rewards (_ # cs) = call_rewards cs"

text \<open>The list of hop tuples and the reward in the tuple that \<^verbatim>\<open>forward\<close> returns.\<close>

definition returned_result :: "forward_result \<Rightarrow> hop_result list" where
  "returned_result out = fst out"

definition returned_reward :: "forward_result \<Rightarrow> real" where
  "returned_reward out = fst (snd (snd (snd out)))"

text \<open>
  The reward term of each hop tuple, summed over the examples of the batch as
  \<^verbatim>\<open>torch.sum\<close> does.
\<close>

definition hop_rewards :: "hop_result list \<Rightarrow> real list" where
  "hop_rewards res = map (\<lambda>h. sum_list (fst (snd h))) res"

text \<open>The supervised terms \<^verbatim>\<open>node_nll + knowledge_nll\<close> of each hop tuple.\<close>

definition supervised_terms :: "hop_result list \<Rightarrow> real list" where
  "supervised_terms res = map (\<lambda>h. fst (snd (snd h)) + snd (snd (snd h))) res"

text \<open>
  Running the observed collaborators and then dropping the journal: used to state that
  observing changes nothing.
\<close>

definition forget :: "error + ('a \<times> ('w \<times> call list) \<times> 'b) \<Rightarrow> error + ('a \<times> 'w \<times> 'b)" where
  "forget r = map_sum id (\<lambda>(x, (w, j), y). (x, w, y)) r"

definition forget_walk :: "error + (('w \<times> call list) \<times> 'b) \<Rightarrow> error + ('w \<times> 'b)" where
  "forget_walk r = map_sum id (\<lambda>((w, j), y). (w, y)) r"

section \<open>Collaborators modelled from the specification\<close>

text \<open>
  Modelled from the spec: \<^verbatim>\<open>loss_function\<close> of \<^verbatim>\<open>model_utils.py\<close> is not among the
  sources. The specification (4.5) gives its first component: for an ordered sequence of
  per-hop tuples (probability, reward, node_nll, knowledge_nll), the supervised terms
  node_nll + knowledge_nll, one per hop, whose mean is the total loss. The three-way
  breakdown it also returns is described only as a combination, so it stays a
  parameter.
\<close>

definition loss_function_spec ::
  "(hop_result list \<Rightarrow> loss_row list) \<Rightarrow> hop_result list \<Rightarrow> error + (real list \<times> loss_row list)"
where
  "loss_function_spec breakdown res =
     Inr (map (\<lambda>(p, r, node_nll', knowledge_nll'). node_nll' + knowledge_nll') res,
          breakdown res)"

text \<open>
  Modelled from the spec: the cut-offs of the top-k accuracies that \<^verbatim>\<open>reward_function\<close>
  (\<^verbatim>\<open>model_utils.py\<close>, not among the sources) computes. The specification (4.4) names
  1, 5, 10 and All, where All is the full pool.
\<close>

datatype cutoff = Top nat | TopAll

text \<open>
  Modelled from the spec: the ranking of the raw knowledge scores (4.4), missing with
  \<^verbatim>\<open>reward_function\<close>. The item ids, highest score first.
\<close>

definition ranked :: "(string \<times> real) list \<Rightarrow> string list" where
  "ranked items = map fst (sort_key (\<lambda>x. - snd x) items)"

text \<open>
  Modelled from the spec: the items that count at a cut-off (4.4), missing with
  \<^verbatim>\<open>reward_function\<close>: the first k of the ranking, or the full pool.
\<close>

definition top_items :: "cutoff \<Rightarrow> (string \<times> real) list \<Rightarrow> string list" where
  "top_items c items = (case c of Top k \<Rightarrow> take k (ranked items) | TopAll \<Rightarrow> ranked items)"

text \<open>
  Modelled from the spec: gold set membership at a cut-off (4.4, glossary), missing
  with \<^verbatim>\<open>reward_function\<close>: a gold item appears among the chosen items.
\<close>

definition hit :: "string list \<Rightarrow> string list \<Rightarrow> bool" where
  "hit gold chosen = (filter (\<lambda>x. x \<in> set gold) chosen \<noteq> [])"

text \<open>
  Modelled from the spec: the top-k accuracy (glossary), missing with
  \<^verbatim>\<open>reward_function\<close>: the fraction of examples where a gold item appears among the top
  k scored candidates. An example is its gold set and its pool of scored items; a
  division by zero gives 0 (7).
\<close>

definition topk_accuracy :: "cutoff \<Rightarrow> (string list \<times> (string \<times> real) list) list \<Rightarrow> real" where
  "topk_accuracy c examples =
     (if examples = [] then 0
      else real (length (filter (\<lambda>ex. hit (fst ex) (top_items c (snd ex))) examples))
           / real (length examples))"

section \<open>Example inputs\<close>

text \<open>
  A configuration in the shape of the repository's JSON configurations, with a key
  \<^verbatim>\<open>label_smoothing_rate\<close> added that \<^verbatim>\<open>model.py\<close> never reads.
\<close>

definition ex_opt :: config where
  "ex_opt = map_of
     [(''batch_size'', PInt 1), (''max_hops'', PInt 2), (''early_stop'', PBool False),
      (''base_poolsize'', PInt 2), (''reward'', PList [PFloat 1, PFloat 1, PFloat (1 / 10)]),
      (''precision'', PStr ''32''), (''device'', PStr ''cpu''),
      (''label_smoothing_rate'', PFloat (1 / 2))]"

text \<open>The same configuration under half precision.\<close>

definition ex_opt16 :: config where
  "ex_opt16 = ex_opt(''precision'' \<mapsto> PStr ''16'')"

text \<open>
  Collaborators for a batch of one example. Their state counts the calls of the node
  selector, so it is the number of the hop. The first hop puts two items into the pool
  and reports 2, every later hop adds a third and reports 1. The reward of hop \<open>n\<close>
  is \<open>n\<close>, and its node and knowledge losses are \<open>n\<close> and \<open>2 n\<close>.
\<close>

definition ex_cs :: "nat collaborators" where
  "ex_cs =
     \<lparr> inputlayer = (\<lambda>w x. Inr (w, x)),
       get_knowledge_embedding = (\<lambda>ns. Inr (map (\<lambda>n. [''avg_pool'' \<mapsto> Num 1]) ns)),
       torch_stack = (\<lambda>ts. Inr (Ten ts)),
       pad_sequence = (\<lambda>ts. Inr (Ten ts)),
       gvt = (\<lambda>w x a. Inr (w, x)),
       node_selector = (\<lambda>w g e i a s tr r.
         Inr (Suc w, a, [''a''], fst (snd s), snd (snd s), Num 1, real (Suc w))),
       knowledge_selector = (\<lambda>w g a s r.
         Inr (w, (if w \<le> 1 then [[''k1'', ''k2'']] else [[''k1'', ''k2'', ''k3'']]),
              2 * real w, Num 1, (if w \<le> 1 then 2 else 1))),
       reward_function = (\<lambda>w nr kr pr bp gk gn cn kp raw.
         Inr (w, [real w], (0, 1, 1, 1), ([1], [real w - 1], [0]))),
       loss_function = (\<lambda>res. Inr (map (\<lambda>(p, r, n, k). n + k) res, [])) \<rparr>"

definition ex_batch :: batch where
  "ex_batch =
     \<lparr> embedding = Ten [Ten [Num 1]], root_node = [''root''],
       nodes = [[''root'', ''a'', '''']], adj = Ten [], label = Ten [Num 1],
       gold_k = [[''k1'', ''k2'']], gold_n = [[''a'']] \<rparr>"

text \<open>The model that \<^verbatim>\<open>__init__\<close> makes of \<open>ex_opt\<close>.\<close>

definition ex_model :: model where
  "ex_model =
     \<lparr> opt = ex_opt, batch_size = PInt 1, max_hops = PInt 2,
       label_smoothing_rate = 15 / 100, avg_pool_size = 0, early_stop = PBool False,
       base_poolsize = PInt 2, node_reward = PFloat 1, knowledge_reward = PFloat 1,
       pool_reward = PFloat (1 / 10), precision = PStr ''32'', mask_value = - 1000000,
       training = True, training_step_outputs = [], logged = [] \<rparr>"

text \<open>
  The same model with early stopping switched on, four hops allowed and a running
  average pool size of 3/2, as a validation epoch might have left it.
\<close>

definition ex_model_stop :: model where
  "ex_model_stop =
     ex_model\<lparr> max_hops := PInt 4, early_stop := PBool True, avg_pool_size := 3 / 2 \<rparr>"

text \<open>One step output: a pool size of 5 for a batch of one example.\<close>

definition ex_output :: step_output where
  "ex_output = ((0, 1, 1, 1), 5, 2, ([1], [1], [0]), [(0, 1, 2)], 2)"

text \<open>What \<^verbatim>\<open>forward\<close> returns for \<open>ex_model\<close> and \<open>ex_batch\<close>: two hops.\<close>

definition ex_returned :: forward_result where
  "ex_returned =
     ([(Num 1, [1], 1, 2), (Num 1, [2], 2, 4)], (0, 1, 1, 1), 3, 2, ([1], [1], [0]),
      [[''k1'', ''k2'', ''k3'']], Num 1)"

text \<open>The journal of that pass.\<close>

definition ex_journal :: "call list" where
  "ex_journal =
     [NodeCall True (15 / 100), PoolCall (15 / 100) [[''k1'', ''k2'']] (Num 1) 2,
      RewardCall [1] (0, 1, 1, 1) ([1], [0], [0]),
      NodeCall True (15 / 100), PoolCall (15 / 100) [[''k1'', ''k2'', ''k3'']] (Num 1) 1,
      RewardCall [2] (0, 1, 1, 1) ([1], [1], [0])]"

text \<open>Two examples with scored pools.\<close>

definition ex_examples :: "(string list \<times> (string \<times> real) list) list" where
  "ex_examples =
     [([''k2''], [(''k1'', 3), (''k2'', 2), (''k3'', 1)]),
      ([''k9''], [(''k4'', 1), (''k5'', 2)])]"

text \<open>The local variables after the two hops of that pass.\<close>

definition ex_locals :: locals where
  "ex_locals =
     \<lparr> agent_state = Ten [Ten [Num 1]], current_node = [''a''],
       current_activation = Ten [Ten [Num 0, Num 0, Num 0]],
       current_score = Ten [Ten [Num 0, Num 0, Num 0]],
       result = [(Num 1, [1], 1, 2), (Num 1, [2], 2, 4)],
       bound = Some \<lparr> prob = Num 1, node_nll = 2,
                      knowledge_pool = [[''k1'', ''k2'', ''k3'']], knowledge_nll = 4,
                      raw_kp = Num 1, mean_k = 1, current_reward = [2],
                      topk_acc = (0, 1, 1, 1), reward_detail = ([1], [1], [0]) \<rparr> \<rparr>"

text \<open>The model that \<^verbatim>\<open>__init__\<close> makes of \<open>ex_opt16\<close>.\<close>

definition ex_model16 :: model where
  "ex_model16 = ex_model\<lparr> opt := ex_opt16, precision := PStr ''16'', mask_value := - 60000 \<rparr>"

text \<open>The example model in evaluation mode, as \<^verbatim>\<open>eval()\<close> leaves it.\<close>

definition ex_model_eval :: model where
  "ex_model_eval = ex_model\<lparr> training := False \<rparr>"

text \<open>A step output of a batch with no example: the rows of the reward breakdown are empty.\<close>

definition ex_output_empty :: step_output where
  "ex_output_empty = ((0, 0, 0, 0), 0, 0, ([], [], []), [(0, 1, 2)], 2)"

section \<open>Lemmas on sequencing and on the loop\<close>

lemma bind_Inr [simp]: "bind (Inr x) f = f x"
  by (simp add: bind_def)

lemma bind_Inl [simp]: "bind (Inl e) f = Inl e"
  by (simp add: bind_def)

lemma bind_eq_Inr: "bind r f = Inr y \<longleftrightarrow> (\<exists>x. r = Inr x \<and> f x = Inr y)"
  by (cases r) simp_all

lemma init_Inr:
  assumes "init build opt' = Inr (m, cs)"
  shows "label_smoothing_rate m = 15 / 100"
    and "avg_pool_size m = 0"
    and "training m"
    and "getitem opt' ''precision'' = Inr (precision m)"
    and "mask_value m = (if precision m = PStr ''16'' then - 60000 else - 1000000)"
    and "build opt' (mask_value m) = Inr cs"
  using assms unfolding init_def
  by (auto simp: bind_eq_Inr Let_def split: prod.splits)

text \<open>One hop binds the loop variables and appends their tuple to the result.\<close>

lemma hop_Inr:
  assumes "hop cs m b e i w l = Inr (w', l')"
  shows "\<exists>v. bound l' = Some v \<and> result l' = result l @ [hop_tuple v]"
  using assms unfolding hop_def hop_tuple_def
  by (auto simp: bind_eq_Inr)

text \<open>Observed, one hop adds its three calls to the journal.\<close>

lemma hop_observe:
  assumes "hop (observe cs) m b e i (w, j) l = Inr ((w', j'), l')"
  shows "\<exists>v. bound l' = Some v \<and> j' = j @ hop_calls m v
            \<and> result l' = result l @ [hop_tuple v]"
  using assms unfolding hop_def hop_tuple_def hop_calls_def observe_def
  by (auto simp: bind_eq_Inr)

lemma stops_Some:
  "bound l = Some v \<Longrightarrow> stops m l \<longleftrightarrow> truthy (early_stop m) \<and> mean_k v < avg_pool_size m"
  by (simp add: stops_def)

text \<open>
  The loop, observed: the hops it ran are a list \<open>vs\<close> of variable bindings, at most as
  many as the bound allows; the journal and the result grow by one entry group per hop;
  the variables are left as the last hop bound them; and no hop but the last met the
  condition of the \<^verbatim>\<open>break\<close>.
\<close>

lemma hop_loop_observe:
  assumes "hop_loop (observe cs) m b e i n (w, j) l = Inr ((w', j'), l')"
  shows "\<exists>vs. length vs \<le> n \<and> j' = j @ concat (map (hop_calls m) vs)
           \<and> result l' = result l @ map hop_tuple vs
           \<and> bound l' = (if vs = [] then bound l else Some (last vs))
           \<and> (\<forall>v\<in>set (butlast vs). \<not> (truthy (early_stop m) \<and> mean_k v < avg_pool_size m))
           \<and> (vs = [] \<longrightarrow> n = 0)"
  using assms
proof (induction n arbitrary: w j l)
  case 0
  then show ?case by (intro exI[of _ "[]"]) simp
next
  case (Suc n)
  from Suc.prems obtain w1 j1 l1 where
    h: "hop (observe cs) m b e i (w, j) l = Inr ((w1, j1), l1)" and
    rest: "(if stops m l1 then Inr ((w1, j1), l1)
            else hop_loop (observe cs) m b e i n (w1, j1) l1) = Inr ((w', j'), l')"
    by (auto simp: bind_eq_Inr)
  from hop_observe[OF h] obtain v where
    v: "bound l1 = Some v" "j1 = j @ hop_calls m v" "result l1 = result l @ [hop_tuple v]"
    by blast
  show ?case
  proof (cases "stops m l1")
    case True
    with rest v show ?thesis
      by (intro exI[of _ "[v]"]) simp
  next
    case False
    with rest have "hop_loop (observe cs) m b e i n (w1, j1) l1 = Inr ((w', j'), l')"
      by simp
    from Suc.IH[OF this] obtain vs where
      vs: "length vs \<le> n" "j' = j1 @ concat (map (hop_calls m) vs)"
          "result l' = result l1 @ map hop_tuple vs"
          "bound l' = (if vs = [] then bound l1 else Some (last vs))"
          "\<forall>v\<in>set (butlast vs). \<not> (truthy (early_stop m) \<and> mean_k v < avg_pool_size m)"
      by blast
    from False v have nv: "\<not> (truthy (early_stop m) \<and> mean_k v < avg_pool_size m)"
      by (simp add: stops_Some)
    show ?thesis
      using vs v nv by (intro exI[of _ "v # vs"]) (auto simp: butlast_def)
  qed
qed

text \<open>The prelude makes no call to a selector or to the reward function.\<close>

lemma prelude_observe:
  assumes "prelude (observe cs) m (w, j) b = Inr ((w2, j2), ii, e, l0)"
  shows "j2 = j \<and> result l0 = [] \<and> bound l0 = None"
  using assms unfolding prelude_def observe_def
  by (auto simp: bind_eq_Inr)

lemma walk_observe:
  assumes "walk (observe cs) m (w, j) b = Inr ((w', j'), l)"
  shows "\<exists>vs n. as_index (max_hops m) = Inr n \<and> length vs \<le> nat n
           \<and> j' = j @ concat (map (hop_calls m) vs)
           \<and> result l = map hop_tuple vs
           \<and> bound l = (if vs = [] then None else Some (last vs))
           \<and> (\<forall>v\<in>set (butlast vs). \<not> (truthy (early_stop m) \<and> mean_k v < avg_pool_size m))
           \<and> (vs = [] \<longrightarrow> nat n = 0)"
proof -
  from assms obtain w2 j2 ii e l0 n where
    p: "prelude (observe cs) m (w, j) b = Inr ((w2, j2), ii, e, l0)" and
    n: "as_index (max_hops m) = Inr n" and
    lp: "hop_loop (observe cs) m b e ii (nat n) (w2, j2) l0 = Inr ((w', j'), l)"
    unfolding walk_def by (auto simp: bind_eq_Inr)
  from prelude_observe[OF p] have l0: "j2 = j" "result l0 = []" "bound l0 = None"
    by simp_all
  from hop_loop_observe[OF lp] obtain vs where
    vs: "length vs \<le> nat n" "j' = j2 @ concat (map (hop_calls m) vs)"
        "result l = result l0 @ map hop_tuple vs"
        "bound l = (if vs = [] then bound l0 else Some (last vs))"
        "\<forall>v\<in>set (butlast vs). \<not> (truthy (early_stop m) \<and> mean_k v < avg_pool_size m)"
        "vs = [] \<longrightarrow> nat n = 0"
    by blast
  show ?thesis
    using n vs l0 by (intro exI[of _ vs] exI[of _ n]) simp
qed

lemma pool_means_hops: "pool_means (concat (map (hop_calls m) vs)) = map mean_k vs"
  by (induction vs) (simp_all add: hop_calls_def)

lemma call_rewards_hops:
  "call_rewards (concat (map (hop_calls m) vs)) = map current_reward vs"
  by (induction vs) (simp_all add: hop_calls_def)

lemma rates_hops:
  "rates (concat (map (hop_calls m) vs)) =
     concat (map (\<lambda>v. [label_smoothing_rate m, label_smoothing_rate m]) vs)"
  by (induction vs) (simp_all add: hop_calls_def)

text \<open>The loop without the journal: the variables and the result stay linked.\<close>

lemma hop_linked:
  assumes "hop cs m b e i w l = Inr (w', l')"
  shows "linked l' \<and> bound l' \<noteq> None \<and> length (result l') = Suc (length (result l))"
proof -
  from hop_Inr[OF assms] obtain v where
    "bound l' = Some v" "result l' = result l @ [hop_tuple v]"
    by blast
  then show ?thesis by (simp add: linked_def)
qed

lemma hop_loop_linked:
  assumes "hop_loop cs m b e i n w l = Inr (w', l')" and "linked l"
  shows "linked l' \<and> length (result l) \<le> length (result l')
         \<and> length (result l') \<le> length (result l) + n
         \<and> (0 < n \<longrightarrow> bound l' \<noteq> None)"
  using assms
proof (induction n arbitrary: w l)
  case 0
  then show ?case by simp
next
  case (Suc n)
  from Suc.prems(1) obtain w1 l1 where
    h: "hop cs m b e i w l = Inr (w1, l1)" and
    rest: "(if stops m l1 then Inr (w1, l1) else hop_loop cs m b e i n w1 l1) = Inr (w', l')"
    by (auto simp: bind_eq_Inr)
  from hop_linked[OF h] have
    l1: "linked l1" "bound l1 \<noteq> None" "length (result l1) = Suc (length (result l))"
    by simp_all
  show ?case
  proof (cases "stops m l1")
    case True
    with rest have "l' = l1" by simp
    with l1 show ?thesis by simp
  next
    case False
    with rest have lp: "hop_loop cs m b e i n w1 l1 = Inr (w', l')"
      by simp
    from Suc.IH[OF lp l1(1)] have
      ih: "linked l'" "length (result l1) \<le> length (result l')"
          "length (result l') \<le> length (result l1) + n"
      by simp_all
    from ih(2) l1(3) have "result l' \<noteq> []" by auto
    with ih(1) have "bound l' \<noteq> None"
      by (auto simp: linked_def split: option.splits)
    with ih l1(3) show ?thesis by simp
  qed
qed

lemma prelude_Inr:
  assumes "prelude cs m w b = Inr (w2, ii, e, l0)"
  shows "result l0 = [] \<and> bound l0 = None"
  using assms unfolding prelude_def
  by (auto simp: bind_eq_Inr)

lemma walk_linked:
  assumes "walk cs m w b = Inr (w', l)"
  shows "\<exists>n. as_index (max_hops m) = Inr n \<and> linked l \<and> length (result l) \<le> nat n
           \<and> (0 < n \<longrightarrow> bound l \<noteq> None)"
proof -
  from assms obtain w2 ii e l0 n where
    p: "prelude cs m w b = Inr (w2, ii, e, l0)" and
    n: "as_index (max_hops m) = Inr n" and
    lp: "hop_loop cs m b e ii (nat n) w2 l0 = Inr (w', l)"
    unfolding walk_def by (auto simp: bind_eq_Inr)
  from prelude_Inr[OF p] have l0: "result l0 = []" "bound l0 = None"
    by simp_all
  then have "linked l0"
    by (simp add: linked_def)
  from hop_loop_linked[OF lp this] l0 have
    "linked l" "length (result l) \<le> nat n" "0 < nat n \<longrightarrow> bound l \<noteq> None"
    by simp_all
  with n show ?thesis
    by (intro exI[of _ n]) simp
qed

text \<open>What a returning forward pass returns, in terms of the walk.\<close>

lemma forward_Inr:
  assumes "forward cs m w b = Inr (m', w', out)"
  shows "\<exists>l v. walk cs m w b = Inr (w', l) \<and> bound l = Some v
           \<and> out = (result l, topk_acc v, sum_list (map length (knowledge_pool v)),
                    sum_list (current_reward v), reward_detail v, knowledge_pool v, raw_kp v)
           \<and> m' = (if training m then m
                   else m\<lparr>avg_pool_size := real (sum_list (map length (knowledge_pool v)))
                                             / real (length (knowledge_pool v))\<rparr>)
           \<and> (training m \<or> knowledge_pool v \<noteq> [])"
proof -
  from assms obtain w1 l where
    wk: "walk cs m w b = Inr (w1, l)" and
    rest: "(case bound l of
       None \<Rightarrow> Inl (UnboundLocalError ''knowledge_pool'')
     | Some v \<Rightarrow>
         let pool_size = sum_list (map length (knowledge_pool v));
             reward = sum_list (current_reward v);
             ret = (result l, topk_acc v, pool_size, reward, reward_detail v,
                    knowledge_pool v, raw_kp v)
         in if \<not> training m
            then (if length (knowledge_pool v) = 0 then Inl ZeroDivisionError
                  else Inr (m\<lparr>avg_pool_size :=
                                real pool_size / real (length (knowledge_pool v))\<rparr>, w1, ret))
            else Inr (m, w1, ret)) = Inr (m', w', out)"
    unfolding forward_def by (auto simp: bind_eq_Inr)
  from rest obtain v where v: "bound l = Some v"
    by (cases "bound l") simp_all
  show ?thesis
  proof (cases "training m")
    case True
    with rest v wk show ?thesis
      by (intro exI[of _ l] exI[of _ v]) (simp add: Let_def)
  next
    case False
    with rest v have ne: "knowledge_pool v \<noteq> []"
      by (cases "knowledge_pool v = []") (simp_all add: Let_def)
    with False rest v wk show ?thesis
      by (intro exI[of _ l] exI[of _ v]) (simp add: Let_def)
  qed
qed

text \<open>Observing changes neither the results nor the errors.\<close>

lemma get_node_state_observe [simp]: "get_node_state (observe cs) = get_node_state cs"
  by (rule ext) (simp add: get_node_state_def observe_def)

lemma forget_walk_simps [simp]:
  "forget_walk (Inl err) = Inl err"
  "forget_walk (Inr ((w, j), y)) = Inr (w, y)"
  by (simp_all add: forget_walk_def)

lemma hop_forget:
  "forget_walk (hop (observe cs) m b e i (w, j) l) = hop cs m b e i w l"
proof (cases "node_selector cs w (nodes b, adj b, label b) e i (agent_state l)
                (current_node l, current_activation l, current_score l)
                (training m) (label_smoothing_rate m)")
  case (Inl err)
  then show ?thesis
    by (simp add: hop_def observe_def)
next
  case ns: (Inr x)
  obtain w1 a' n' act' sc' p' nll' where x: "x = (w1, a', n', act', sc', p', nll')"
    by (metis prod.exhaust)
  show ?thesis
  proof (cases "knowledge_selector cs w1 (gold_k b, nodes b) a' sc' (label_smoothing_rate m)")
    case (Inl err)
    with ns x show ?thesis
      by (simp add: hop_def observe_def)
  next
    case ks: (Inr y)
    obtain w2 kp knll raw mk where y: "y = (w2, kp, knll, raw, mk)"
      by (metis prod.exhaust)
    show ?thesis
    proof (cases "reward_function cs w2 (node_reward m) (knowledge_reward m) (pool_reward m)
                    (base_poolsize m) (gold_k b) (gold_n b) n' kp raw")
      case (Inl err)
      with ns x ks y show ?thesis
        by (simp add: hop_def observe_def)
    next
      case (Inr z)
      obtain w3 cr acc det where z: "z = (w3, cr, acc, det)"
        by (metis prod.exhaust)
      with Inr ns x ks y show ?thesis
        by (simp add: hop_def observe_def)
    qed
  qed
qed

lemma hop_loop_forget:
  "forget_walk (hop_loop (observe cs) m b e i n (w, j) l) = hop_loop cs m b e i n w l"
proof (induction n arbitrary: w j l)
  case 0
  show ?case by simp
next
  case (Suc n)
  show ?case
  proof (cases "hop (observe cs) m b e i (w, j) l")
    case (Inl err)
    with hop_forget[of cs m b e i w j l] have "hop cs m b e i w l = Inl err"
      by simp
    with Inl show ?thesis
      by simp
  next
    case (Inr x)
    obtain w1 j1 l1 where x: "x = ((w1, j1), l1)"
      by (metis prod.exhaust)
    with Inr hop_forget[of cs m b e i w j l] have "hop cs m b e i w l = Inr (w1, l1)"
      by simp
    with Inr x Suc.IH[of w1 j1 l1] show ?thesis
      by simp
  qed
qed

lemma prelude_forget:
  "map_sum id (\<lambda>((w, j), y). (w, y)) (prelude (observe cs) m (w, j) b) = prelude cs m w b"
proof (cases "inputlayer cs w (embedding b)")
  case (Inl err)
  then show ?thesis
    by (simp add: prelude_def observe_def)
next
  case il: (Inr x)
  obtain w1 ii where x: "x = (w1, ii)"
    by (metis prod.exhaust)
  show ?thesis
  proof (cases "getitem (opt m) ''device''")
    case (Inl err)
    with il x show ?thesis
      by (simp add: prelude_def observe_def)
  next
    case dv: (Inr d)
    show ?thesis
    proof (cases "map_err (\<lambda>n. get_node_state cs (filter (\<lambda>s. s \<noteq> []) n)) (nodes b)")
      case (Inl err)
      with il x dv show ?thesis
        by (simp add: prelude_def) (simp add: observe_def)
    next
      case st: (Inr states)
      show ?thesis
      proof (cases "pad_sequence cs states")
        case (Inl err)
        with il x dv st show ?thesis
          by (simp add: prelude_def) (simp add: observe_def)
      next
        case pd: (Inr padded)
        show ?thesis
        proof (cases "gvt cs w1 padded (adj b)")
          case (Inl err)
          with il x dv st pd show ?thesis
            by (simp add: prelude_def) (simp add: observe_def)
        next
          case (Inr y)
          obtain w2 e where y: "y = (w2, e)"
            by (metis prod.exhaust)
          with Inr il x dv st pd show ?thesis
            by (simp add: prelude_def) (simp add: observe_def)
        qed
      qed
    qed
  qed
qed

lemma walk_forget: "forget_walk (walk (observe cs) m (w, j) b) = walk cs m w b"
proof (cases "prelude (observe cs) m (w, j) b")
  case (Inl err)
  with prelude_forget[of cs m w j b] have "prelude cs m w b = Inl err"
    by simp
  with Inl show ?thesis
    by (simp add: walk_def)
next
  case (Inr x)
  obtain w2 j2 ii e l0 where x: "x = ((w2, j2), ii, e, l0)"
    by (metis prod.exhaust)
  with Inr prelude_forget[of cs m w j b] have p: "prelude cs m w b = Inr (w2, ii, e, l0)"
    by simp
  show ?thesis
  proof (cases "as_index (max_hops m)")
    case (Inl err)
    with Inr x p show ?thesis
      by (simp add: walk_def)
  next
    case n: (Inr n)
    with Inr x p hop_loop_forget[of cs m b e ii "nat n" w2 j2 l0]
    show ?thesis
      by (simp add: walk_def)
  qed
qed

lemma forward_forget: "forget (forward (observe cs) m (w, j) b) = forward cs m w b"
proof (cases "walk (observe cs) m (w, j) b")
  case (Inl err)
  with walk_forget[of cs m w j b] have "walk cs m w b = Inl err"
    by simp
  with Inl show ?thesis
    by (simp add: forward_def forget_def)
next
  case (Inr x)
  obtain w' j' l where x: "x = ((w', j'), l)"
    by (metis prod.exhaust)
  with Inr walk_forget[of cs m w j b] have "walk cs m w b = Inr (w', l)"
    by simp
  with Inr x show ?thesis
    by (simp add: forward_def forget_def Let_def split: option.splits)
qed

text \<open>What a returning training step and a returning epoch log did.\<close>

lemma training_step_Inr:
  assumes "training_step cs m w b idx = Inr (m2, w2, loss)"
  shows "\<exists>m1 out losses ld. forward cs m w b = Inr (m1, w2, out)
           \<and> loss_function cs (returned_result out) = Inr (losses, ld)
           \<and> losses \<noteq> [] \<and> loss = sum_list losses / real (length losses)
           \<and> avg_pool_size m2 = avg_pool_size m1
           \<and> label_smoothing_rate m2 = label_smoothing_rate m1
           \<and> training m2 = training m1"
proof -
  from assms obtain x where fw: "forward cs m w b = Inr x"
    unfolding training_step_def by (cases "forward cs m w b") simp_all
  obtain m1 w1 out where x: "x = (m1, w1, out)"
    by (cases x) auto
  obtain res acc ps rw rd kp raw where out: "out = (res, acc, ps, rw, rd, kp, raw)"
    by (cases out) auto
  from assms fw x out obtain y where lf: "loss_function cs res = Inr y"
    unfolding training_step_def by (cases "loss_function cs res") simp_all
  obtain losses ld where y: "y = (losses, ld)"
    by (cases y) auto
  from assms fw x out lf y have ne: "losses \<noteq> []"
    unfolding training_step_def by (cases "losses = []") (simp_all add: Let_def)
  with assms fw x out lf y have
    "w2 = w1" "loss = sum_list losses / real (length losses)"
    "avg_pool_size m2 = avg_pool_size m1" "label_smoothing_rate m2 = label_smoothing_rate m1"
    "training m2 = training m1"
    unfolding training_step_def by (auto simp: Let_def)
  with fw x out lf y ne show ?thesis
    by (intro exI[of _ m1] exI[of _ out] exI[of _ losses] exI[of _ ld])
       (simp add: returned_result_def)
qed

lemma log_outputs_Inr:
  assumes "log_outputs m outs split num = Inr m3"
  shows "\<exists>pool'. avg_pool_size m3 = (if training m then pool' else avg_pool_size m)
           \<and> (split @ '' avg_pool_size'', Val pool') \<in> set (logged m3)
           \<and> label_smoothing_rate m3 = label_smoothing_rate m
           \<and> training m3 = training m"
proof -
  from assms obtain t where
    acc: "accumulate outs ((0, 0, 0), (Val 0, Val 0, Val 0), (0, 0, 0, 0), 0, 0, 0, 0) = Inr t"
    unfolding log_outputs_def
    by (cases "accumulate outs ((0, 0, 0), (Val 0, Val 0, Val 0), (0, 0, 0, 0), 0, 0, 0, 0)")
       simp_all
  obtain l1 l2 l3 r1 r2 r3 a1 a2 a3 a4 pool' steps' reward' cnt where
    t: "t = ((l1, l2, l3), (r1, r2, r3), (a1, a2, a3, a4), pool', steps', reward', cnt)"
    by (cases t) auto
  show ?thesis
  proof (cases "num > 0")
    case True
    with assms acc t have c: "cnt \<noteq> 0"
      unfolding log_outputs_def by (cases "cnt = 0") simp_all
    with True assms acc t show ?thesis
      unfolding log_outputs_def
      by (intro exI[of _ "pool' / real_of_int num"]) (auto simp: Let_def)
  next
    case False
    with assms acc t show ?thesis
      unfolding log_outputs_def
      by (intro exI[of _ "pool'"]) (auto simp: Let_def)
  qed
qed

section \<open>The example runs\<close>

lemmas ex_defs = ex_cs_def ex_batch_def ex_model_def ex_model_stop_def ex_opt_def
  ex_returned_def ex_journal_def ex_locals_def ex_model16_def ex_opt16_def

lemmas run_defs = walk_def prelude_def hop_def stops_def getitem_def get_node_state_def
  zeros_def forward_def

lemma ex_init: "init (\<lambda>_ _. Inr ex_cs) ex_opt = Inr (ex_model, ex_cs)"
  by (simp add: init_def ex_opt_def ex_model_def getitem_def)

lemma ex_init16: "init (\<lambda>_ _. Inr ex_cs) ex_opt16 = Inr (ex_model16, ex_cs)"
  by (simp add: init_def ex_opt_def ex_opt16_def ex_model_def ex_model16_def getitem_def)

lemma ex_walk_observe:
  "walk (observe ex_cs) ex_model (0, []) ex_batch = Inr ((2, ex_journal), ex_locals)"
  by (simp add: run_defs ex_defs observe_def numeral_2_eq_2)

lemma ex_walk_stop:
  "walk (observe ex_cs) ex_model_stop (0, []) ex_batch = Inr ((2, ex_journal), ex_locals)"
  by (simp add: run_defs ex_defs observe_def eval_nat_numeral)

lemma ex_forward: "forward ex_cs ex_model 0 ex_batch = Inr (ex_model, 2, ex_returned)"
  by (simp add: run_defs ex_defs numeral_2_eq_2 Let_def)

lemma ex_forward_observe:
  "forward (observe ex_cs) ex_model (0, []) ex_batch
     = Inr (ex_model, (2, ex_journal), ex_returned)"
  by (simp add: run_defs ex_defs observe_def numeral_2_eq_2 Let_def)

lemma ex_forward_stop:
  "forward ex_cs ex_model_stop 0 ex_batch = Inr (ex_model_stop, 2, ex_returned)"
  by (simp add: run_defs ex_defs eval_nat_numeral Let_def)

lemma ex_forward_unbound:
  "forward ex_cs (ex_model\<lparr>max_hops := PInt 0\<rparr>) 0 ex_batch
     = Inl (UnboundLocalError ''knowledge_pool'')"
  by (simp add: run_defs ex_defs Let_def)

lemma ex_training_step:
  "training_step ex_cs ex_model 0 ex_batch 0
     = Inr (ex_model\<lparr> logged := [(''Train Loss'', Val (9 / 2))],
                       training_step_outputs :=
                         [((0, 1, 1, 1), 3, 2, ([1], [1], [0]), [], 2)] \<rparr>, 2, 9 / 2)"
  unfolding training_step_def ex_forward
  by (simp add: ex_returned_def ex_cs_def ex_model_def Let_def numeral_2_eq_2)

lemma ex_training_step_stop:
  "training_step ex_cs ex_model_stop 0 ex_batch 0
     = Inr (ex_model_stop\<lparr> logged := [(''Train Loss'', Val (9 / 2))],
                            training_step_outputs :=
                              [((0, 1, 1, 1), 3, 2, ([1], [1], [0]), [], 2)] \<rparr>, 2, 9 / 2)"
  unfolding training_step_def ex_forward_stop
  by (simp add: ex_returned_def ex_cs_def ex_model_def ex_model_stop_def Let_def
      numeral_2_eq_2)

lemma ex_forward_eval:
  "forward ex_cs ex_model_eval 0 ex_batch
     = Inr (ex_model_eval\<lparr> avg_pool_size := 3 \<rparr>, 2, ex_returned)"
  by (simp add: run_defs ex_defs ex_model_eval_def numeral_2_eq_2 Let_def)

lemma ex_log_train:
  "map_sum id avg_pool_size (log_outputs ex_model [ex_output] ''Train'' 1) = Inr 5"
  by (simp add: log_outputs_def add_output_def np_sum_axis0_def np_mean_axis1_def
      ex_model_def ex_output_def Let_def)

lemma ex_log_eval:
  "map_sum id avg_pool_size (log_outputs ex_model_eval [ex_output] ''Val'' 1) = Inr 0"
  by (simp add: log_outputs_def add_output_def np_sum_axis0_def np_mean_axis1_def
      ex_model_def ex_model_eval_def ex_output_def Let_def)

text \<open>
  With empty rows the means are NaN; \<^verbatim>\<open>log_outputs\<close> goes on, assigns the field and logs
  NaN for the three reward terms.
\<close>

lemma ex_log_empty_rows:
  "map_sum id (\<lambda>m. (avg_pool_size m, drop 10 (logged m)))
     (log_outputs ex_model [ex_output, ex_output_empty] ''Train'' 1)
   = Inr (5, [(''Train Node reward'', NaN), (''Train Knowledge reward'', NaN),
              (''Train Pool reward'', NaN)])"
  by (simp add: log_outputs_def add_output_def np_sum_axis0_def np_mean_axis1_def
      ex_model_def ex_output_def ex_output_empty_def Let_def)

section \<open>The mask and the smoothing rate\<close>

text \<open>
  C8: the mask is chosen from the precision of the configuration: it is -6e4 exactly
  when the precision is the string "16", and -1e6 in every other case. This mask is the
  one the collaborators are constructed with.
\<close>

theorem mask_selected_by_precision:
  assumes "init build opt' = Inr (m, cs)"
  shows "getitem opt' ''precision'' = Inr (precision m)
       \<and> (mask_value m = - 60000 \<longleftrightarrow> precision m = PStr ''16'')
       \<and> (precision m \<noteq> PStr ''16'' \<longrightarrow> mask_value m = - 1000000)
       \<and> build opt' (mask_value m) = Inr cs"
  using init_Inr(4,5,6)[OF assms] by simp

theorem mask_selected_by_precision_witness:
  "init (\<lambda>_ _. Inr ex_cs) ex_opt16 = Inr (ex_model16, ex_cs)
   \<and> precision ex_model16 = PStr ''16'' \<and> mask_value ex_model16 = - 60000
   \<and> init (\<lambda>_ _. Inr ex_cs) ex_opt = Inr (ex_model, ex_cs)
   \<and> precision ex_model = PStr ''32'' \<and> mask_value ex_model = - 1000000"
  using mask_selected_by_precision[OF ex_init16] mask_selected_by_precision[OF ex_init]
    ex_init ex_init16
  by (simp add: ex_model16_def ex_model_def)

text \<open>
  C9: the label smoothing rate is the constant 0.15 whatever the configuration holds,
  and every call of the node selector and of the knowledge selector in a forward pass
  receives it: two calls for each hop, all with the rate 0.15. The model \<open>m\<close> is the
  constructed one or any later state of it with the field as constructed.
\<close>

theorem label_smoothing_rate_fixed:
  assumes "init build opt' = Inr (m0, cs)"
    and "label_smoothing_rate m = label_smoothing_rate m0"
    and "walk (observe cs) m (w, []) b = Inr ((w', j), l)"
  shows "label_smoothing_rate m0 = 15 / 100
       \<and> (\<forall>r\<in>set (rates j). r = 15 / 100)
       \<and> length (rates j) = 2 * length (result l)"
proof -
  have r0: "label_smoothing_rate m0 = 15 / 100"
    using init_Inr(1)[OF assms(1)] .
  from walk_observe[OF assms(3)] obtain vs where
    j: "j = concat (map (hop_calls m) vs)" and res: "result l = map hop_tuple vs"
    by auto
  have "rates j = concat (map (\<lambda>v. [label_smoothing_rate m, label_smoothing_rate m]) vs)"
    using j by (simp add: rates_hops)
  then have "(\<forall>r\<in>set (rates j). r = label_smoothing_rate m)
             \<and> length (rates j) = 2 * length vs"
    by (simp add: length_concat comp_def sum_list_triv)
  with r0 assms(2) res show ?thesis
    by auto
qed

theorem label_smoothing_rate_fixed_witness:
  "init (\<lambda>_ _. Inr ex_cs) ex_opt = Inr (ex_model, ex_cs)
   \<and> ex_opt ''label_smoothing_rate'' = Some (PFloat (1 / 2))
   \<and> walk (observe ex_cs) ex_model (0, []) ex_batch = Inr ((2, ex_journal), ex_locals)
   \<and> label_smoothing_rate ex_model = 15 / 100
   \<and> rates ex_journal = [15 / 100, 15 / 100, 15 / 100, 15 / 100]
   \<and> length (rates ex_journal) = 2 * length (result ex_locals)"
  using label_smoothing_rate_fixed[OF ex_init refl ex_walk_observe] ex_init ex_walk_observe
  by (simp add: ex_opt_def ex_journal_def ex_locals_def ex_model_def)

section \<open>The hop loop\<close>

text \<open>
  C3: with early stopping enabled, when the mean pool size that the knowledge selector
  reports at hop \<open>k\<close> (counted from 0 in the journal) is below the stored
  \<open>avg_pool_size\<close>, hop \<open>k\<close> is the last hop: the journal and the result hold exactly
  \<open>k + 1\<close> hops. The walk is the part of \<^verbatim>\<open>forward\<close> up to the end of the loop, so this
  holds for every forward pass that reaches the end of the loop.
\<close>

theorem early_stop_ends_loop:
  assumes "walk (observe cs) m (w, []) b = Inr ((w', j), l)"
    and "truthy (early_stop m)"
    and "k < length (pool_means j)"
    and "pool_means j ! k < avg_pool_size m"
  shows "length (pool_means j) = Suc k \<and> length (result l) = Suc k"
proof -
  from walk_observe[OF assms(1)] obtain vs where
    j: "j = concat (map (hop_calls m) vs)" and
    res: "result l = map hop_tuple vs" and
    go: "\<forall>v\<in>set (butlast vs). \<not> (truthy (early_stop m) \<and> mean_k v < avg_pool_size m)"
    by (elim exE conjE) simp
  from j have pm: "pool_means j = map mean_k vs"
    by (simp add: pool_means_hops)
  with assms(3) have k: "k < length vs"
    by simp
  have "\<not> k < length vs - 1"
  proof
    assume lt: "k < length vs - 1"
    then have "butlast vs ! k = vs ! k"
      by (simp add: nth_butlast)
    moreover from lt have "butlast vs ! k \<in> set (butlast vs)"
      by simp
    ultimately have "vs ! k \<in> set (butlast vs)"
      by simp
    with go assms(2) have "\<not> mean_k (vs ! k) < avg_pool_size m"
      by blast
    with assms(4) pm k show False
      by simp
  qed
  with k have "length vs = Suc k"
    by linarith
  with pm res show ?thesis
    by simp
qed

theorem early_stop_ends_loop_witness:
  "walk (observe ex_cs) ex_model_stop (0, []) ex_batch = Inr ((2, ex_journal), ex_locals)
   \<and> truthy (early_stop ex_model_stop) \<and> max_hops ex_model_stop = PInt 4
   \<and> pool_means ex_journal = [2, 1] \<and> avg_pool_size ex_model_stop = 3 / 2
   \<and> (1::nat) < length (pool_means ex_journal)
   \<and> pool_means ex_journal ! 1 < avg_pool_size ex_model_stop
   \<and> length (pool_means ex_journal) = Suc 1 \<and> length (result ex_locals) = Suc 1"
proof -
  have t: "truthy (early_stop ex_model_stop)"
    by (simp add: ex_model_stop_def)
  have pm: "pool_means ex_journal = [2, 1]"
    by (simp add: ex_journal_def)
  have k: "(1::nat) < length (pool_means ex_journal)"
    by (simp add: pm)
  have lt: "pool_means ex_journal ! 1 < avg_pool_size ex_model_stop"
    by (simp add: pm ex_model_stop_def)
  from early_stop_ends_loop[OF ex_walk_stop t k lt] ex_walk_stop t pm k lt show ?thesis
    by (simp add: ex_model_stop_def)
qed

text \<open>
  C10: the accuracies, the knowledge pool and the raw scores that \<^verbatim>\<open>forward\<close> returns are
  those of the final hop: the pool and scores that the last call of the knowledge
  selector returned, and the accuracies and reward breakdown that the last call of the
  reward function returned. What the earlier hops computed is kept in the result list
  alone, whose tuples hold the reward of every hop in order. A forward pass that
  returns ran at least one hop. With no hop to run (\<^verbatim>\<open>max_hops\<close> at most 0), no forward
  pass returns: once the prelude is through, line 86 raises because \<^verbatim>\<open>knowledge_pool\<close>
  was never bound.
\<close>

theorem forward_returns_final_hop:
  "(forward (observe cs) m (w, []) b = Inr (m', (w', j), (res, acc, ps, rw, rd, kp, raw))
      \<longrightarrow> (\<exists>n. as_index (max_hops m) = Inr n \<and> 1 \<le> n \<and> length res \<le> nat n) \<and> res \<noteq> []
        \<and> map (\<lambda>h. fst (snd h)) res = call_rewards j
        \<and> (\<exists>j0 tr r r' mk cr.
              j = j0 @ [NodeCall tr r, PoolCall r' kp raw mk, RewardCall cr acc rd]))
   \<and> (as_index (max_hops m) = Inr n0 \<and> n0 \<le> 0
      \<longrightarrow> (\<exists>err. forward cs m w b = Inl err)
        \<and> (\<forall>x. prelude cs m w b = Inr x
              \<longrightarrow> forward cs m w b = Inl (UnboundLocalError ''knowledge_pool'')))"
proof (intro conjI impI)
  assume fw: "forward (observe cs) m (w, []) b
              = Inr (m', (w', j), (res, acc, ps, rw, rd, kp, raw))"
  from forward_Inr[OF fw] obtain l v where
    wk: "walk (observe cs) m (w, []) b = Inr ((w', j), l)" and
    v: "bound l = Some v" and
    out: "res = result l" "acc = topk_acc v" "rd = reward_detail v"
         "kp = knowledge_pool v" "raw = raw_kp v"
    by (elim exE conjE) simp
  from walk_observe[OF wk] obtain vs n where
    n: "as_index (max_hops m) = Inr n" and len: "length vs \<le> nat n" and
    j: "j = concat (map (hop_calls m) vs)" and
    r: "result l = map hop_tuple vs" and
    bd: "bound l = (if vs = [] then None else Some (last vs))"
    by (elim exE conjE) simp
  from v bd have ne: "vs \<noteq> []" and lv: "last vs = v"
    by (auto split: if_splits)
  from ne len have "1 \<le> n"
    by (cases vs) auto
  with n len r out(1) show "\<exists>n. as_index (max_hops m) = Inr n \<and> 1 \<le> n \<and> length res \<le> nat n"
    by (intro exI[of _ n]) simp
  from ne r out(1) show "res \<noteq> []"
    by simp
  from j r out(1) show "map (\<lambda>h. fst (snd h)) res = call_rewards j"
    by (simp add: call_rewards_hops hop_tuple_def comp_def)
  have "concat (map (hop_calls m) (butlast vs @ [last vs]))
        = concat (map (hop_calls m) (butlast vs)) @ hop_calls m (last vs)"
    by simp
  with ne have "concat (map (hop_calls m) vs)
             = concat (map (hop_calls m) (butlast vs)) @ hop_calls m (last vs)"
    by simp
  with j lv out show "\<exists>j0 tr r r' mk cr.
      j = j0 @ [NodeCall tr r, PoolCall r' kp raw mk, RewardCall cr acc rd]"
    by (simp add: hop_calls_def)
next
  assume a: "as_index (max_hops m) = Inr n0 \<and> n0 \<le> 0"
  have un: "forward cs m w b = Inl (UnboundLocalError ''knowledge_pool'')"
    if p: "prelude cs m w b = Inr x" for x
  proof -
    obtain w2 ii e l0 where x: "x = (w2, ii, e, l0)"
      by (metis prod.exhaust)
    from prelude_Inr[OF p[unfolded x]] have "bound l0 = None"
      by simp
    with a p x show ?thesis
      by (simp add: forward_def walk_def)
  qed
  then show "\<forall>x. prelude cs m w b = Inr x
      \<longrightarrow> forward cs m w b = Inl (UnboundLocalError ''knowledge_pool'')"
    by blast
  show "\<exists>err. forward cs m w b = Inl err"
  proof (cases "prelude cs m w b")
    case (Inl err)
    then show ?thesis
      by (simp add: forward_def walk_def)
  next
    case (Inr x)
    with un show ?thesis
      by blast
  qed
qed

theorem forward_returns_final_hop_witness:
  "forward (observe ex_cs) ex_model (0, []) ex_batch
     = Inr (ex_model, (2, ex_journal), ex_returned)
   \<and> ex_returned = ([(Num 1, [1], 1, 2), (Num 1, [2], 2, 4)], (0, 1, 1, 1), 3, 2,
                    ([1], [1], [0]), [[''k1'', ''k2'', ''k3'']], Num 1)
   \<and> drop 3 ex_journal = [NodeCall True (15 / 100),
        PoolCall (15 / 100) [[''k1'', ''k2'', ''k3'']] (Num 1) 1,
        RewardCall [2] (0, 1, 1, 1) ([1], [1], [0])]
   \<and> call_rewards ex_journal = [[1], [2]]
   \<and> as_index (max_hops (ex_model\<lparr>max_hops := PInt 0\<rparr>)) = Inr 0
   \<and> forward ex_cs (ex_model\<lparr>max_hops := PInt 0\<rparr>) 0 ex_batch
       = Inl (UnboundLocalError ''knowledge_pool'')"
  using forward_returns_final_hop[of ex_cs ex_model 0 ex_batch ex_model 2 ex_journal
      "[(Num 1, [1], 1, 2), (Num 1, [2], 2, 4)]" "(0, 1, 1, 1)" 3 2 "([1], [1], [0])"
      "[[''k1'', ''k2'', ''k3'']]" "Num 1" 0]
    forward_returns_final_hop[of ex_cs "ex_model\<lparr>max_hops := PInt 0\<rparr>" 0 ex_batch
      _ _ _ _ _ _ _ _ _ _ 0]
    ex_forward_observe ex_forward_unbound
  by (simp add: ex_returned_def ex_journal_def)

section \<open>The returned reward\<close>

text \<open>
  C1, as the specification states it, fails: for two hops without early stopping the
  hop rewards are 1 and 2, their running sum is 3, and \<^verbatim>\<open>forward\<close> returns 2.
\<close>

theorem reward_not_cumulative_counterexample:
  "forward ex_cs ex_model 0 ex_batch = Inr (ex_model, 2, ex_returned)
   \<and> max_hops ex_model = PInt 2 \<and> \<not> truthy (early_stop ex_model)
   \<and> hop_rewards (returned_result ex_returned) = [1, 2]
   \<and> returned_reward ex_returned \<noteq> sum_list (hop_rewards (returned_result ex_returned))"
  using ex_forward
  by (simp add: ex_model_def ex_returned_def hop_rewards_def returned_result_def
      returned_reward_def)

text \<open>
  C1, amended: the reward that \<^verbatim>\<open>forward\<close> returns is the reward term of the last
  executed hop, summed over the examples of the batch; the terms of the earlier hops
  are kept in the returned list of hop tuples and are not added to it.
\<close>

theorem reward_is_final_hop:
  assumes "forward cs m w b = Inr (m', w', out)"
  shows "returned_result out \<noteq> []
       \<and> returned_reward out = last (hop_rewards (returned_result out))"
proof -
  from forward_Inr[OF assms] obtain l v where
    wk: "walk cs m w b = Inr (w', l)" and v: "bound l = Some v" and
    out: "out = (result l, topk_acc v, sum_list (map length (knowledge_pool v)),
                 sum_list (current_reward v), reward_detail v, knowledge_pool v, raw_kp v)"
    by (elim exE conjE) simp
  from walk_linked[OF wk] have "linked l"
    by (elim exE conjE) simp
  with v have ne: "result l \<noteq> []" and lst: "last (result l) = hop_tuple v"
    by (simp_all add: linked_def)
  from ne have "last (hop_rewards (result l)) = sum_list (fst (snd (last (result l))))"
    by (simp add: hop_rewards_def last_map)
  with lst have "last (hop_rewards (result l)) = sum_list (current_reward v)"
    by (simp add: hop_tuple_def)
  with ne out show ?thesis
    by (simp add: returned_result_def returned_reward_def)
qed

theorem reward_is_final_hop_witness:
  "forward ex_cs ex_model 0 ex_batch = Inr (ex_model, 2, ex_returned)
   \<and> hop_rewards (returned_result ex_returned) = [1, 2]
   \<and> returned_reward ex_returned = 2
   \<and> returned_reward ex_returned = last (hop_rewards (returned_result ex_returned))"
  using reward_is_final_hop[OF ex_forward] ex_forward
  by (simp add: ex_returned_def hop_rewards_def returned_result_def returned_reward_def)

section \<open>The running average pool size\<close>

text \<open>
  C2, as the specification states it, fails: \<^verbatim>\<open>log_outputs\<close>, run in training mode on
  one step output with pool size 5, changes \<open>avg_pool_size\<close> from 0 to 5.
\<close>

theorem avg_pool_size_training_counterexample:
  "training ex_model \<and> avg_pool_size ex_model = 0
   \<and> map_sum id avg_pool_size (log_outputs ex_model [ex_output] ''Train'' 1) = Inr 5"
  by (simp add: log_outputs_def add_output_def np_sum_axis0_def np_mean_axis1_def
      ex_model_def ex_output_def Let_def)

text \<open>
  C2, amended: \<open>avg_pool_size\<close> is assigned in two places, each under its own mode.
  \<^verbatim>\<open>forward\<close> assigns it only when the model is not in training mode, to the mean pool
  size of the batch; a forward pass or a training step in training mode leaves it
  unchanged. \<^verbatim>\<open>log_outputs\<close> assigns it only when the model is in training mode, to
  the average pool size it logs; outside training mode it leaves it unchanged.
\<close>

theorem avg_pool_size_writes:
  "(training m \<and> forward cs m w b = Inr (m1, w1, out) \<longrightarrow> avg_pool_size m1 = avg_pool_size m)
   \<and> (training m \<and> training_step cs m w b idx = Inr (m2, w2, loss)
        \<longrightarrow> avg_pool_size m2 = avg_pool_size m)
   \<and> (\<not> training m \<and> forward cs m w b = Inr (m1, w1, (res, acc, ps, rw, rd, kp, raw))
        \<longrightarrow> kp \<noteq> [] \<and> avg_pool_size m1 = real ps / real (length kp))
   \<and> (\<not> training m \<and> log_outputs m outs split num = Inr m3
        \<longrightarrow> avg_pool_size m3 = avg_pool_size m)
   \<and> (training m \<and> log_outputs m outs split num = Inr m3
        \<longrightarrow> (split @ '' avg_pool_size'', Val (avg_pool_size m3)) \<in> set (logged m3))"
proof (intro conjI impI)
  assume a: "training m \<and> forward cs m w b = Inr (m1, w1, out)"
  then have fw: "forward cs m w b = Inr (m1, w1, out)" and tr: "training m"
    by simp_all
  from forward_Inr[OF fw] tr show "avg_pool_size m1 = avg_pool_size m"
    by (elim exE conjE) simp
next
  assume a: "training m \<and> training_step cs m w b idx = Inr (m2, w2, loss)"
  then have ts: "training_step cs m w b idx = Inr (m2, w2, loss)" and tr: "training m"
    by simp_all
  from training_step_Inr[OF ts] obtain m' out' where
    fw: "forward cs m w b = Inr (m', w2, out')" and eq: "avg_pool_size m2 = avg_pool_size m'"
    by (elim exE conjE) simp
  from forward_Inr[OF fw] tr have "avg_pool_size m' = avg_pool_size m"
    by (elim exE conjE) simp
  with eq show "avg_pool_size m2 = avg_pool_size m"
    by simp
next
  assume a: "\<not> training m \<and> forward cs m w b = Inr (m1, w1, (res, acc, ps, rw, rd, kp, raw))"
  then have fw: "forward cs m w b = Inr (m1, w1, (res, acc, ps, rw, rd, kp, raw))"
    and tr: "\<not> training m"
    by simp_all
  from forward_Inr[OF fw] tr show "kp \<noteq> []"
    by (elim exE conjE) simp
  from forward_Inr[OF fw] tr show "avg_pool_size m1 = real ps / real (length kp)"
    by (elim exE conjE) simp
next
  assume a: "\<not> training m \<and> log_outputs m outs split num = Inr m3"
  then have lo: "log_outputs m outs split num = Inr m3" and tr: "\<not> training m"
    by simp_all
  from log_outputs_Inr[OF lo] tr show "avg_pool_size m3 = avg_pool_size m"
    by (elim exE conjE) simp
next
  assume a: "training m \<and> log_outputs m outs split num = Inr m3"
  then have lo: "log_outputs m outs split num = Inr m3" and tr: "training m"
    by simp_all
  from log_outputs_Inr[OF lo] tr
  show "(split @ '' avg_pool_size'', Val (avg_pool_size m3)) \<in> set (logged m3)"
    by (elim exE conjE) simp
qed

theorem avg_pool_size_writes_witness:
  "training ex_model \<and> avg_pool_size ex_model = 0
   \<and> map_sum id (avg_pool_size \<circ> fst) (forward ex_cs ex_model 0 ex_batch) = Inr 0
   \<and> map_sum id (avg_pool_size \<circ> fst) (training_step ex_cs ex_model 0 ex_batch 0) = Inr 0
   \<and> map_sum id avg_pool_size (log_outputs ex_model [ex_output] ''Train'' 1) = Inr 5
   \<and> \<not> training ex_model_eval \<and> avg_pool_size ex_model_eval = 0
   \<and> map_sum id (avg_pool_size \<circ> fst) (forward ex_cs ex_model_eval 0 ex_batch) = Inr 3
   \<and> map_sum id avg_pool_size (log_outputs ex_model_eval [ex_output] ''Val'' 1) = Inr 0"
proof -
  have tr: "training ex_model" and ev: "\<not> training ex_model_eval"
    by (simp_all add: ex_model_def ex_model_eval_def)
  have a0: "avg_pool_size ex_model = 0" "avg_pool_size ex_model_eval = 0"
    by (simp_all add: ex_model_def ex_model_eval_def)
  obtain m3 where lt: "log_outputs ex_model [ex_output] ''Train'' 1 = Inr m3"
    using ex_log_train by (cases "log_outputs ex_model [ex_output] ''Train'' 1") simp_all
  obtain m5 where le: "log_outputs ex_model_eval [ex_output] ''Val'' 1 = Inr m5"
    using ex_log_eval by (cases "log_outputs ex_model_eval [ex_output] ''Val'' 1") simp_all
  from avg_pool_size_writes[of ex_model ex_cs 0 ex_batch ex_model 2 ex_returned 0 _ 2 "9 / 2"
      _ _ _ _ _ _ _ "[ex_output]" "''Train''" 1 m3]
    tr ex_forward ex_training_step lt
  have p1: "(''Train avg_pool_size'', Val (avg_pool_size m3)) \<in> set (logged m3)"
    by simp
  from avg_pool_size_writes[of ex_model_eval ex_cs 0 ex_batch "ex_model_eval\<lparr>avg_pool_size := 3\<rparr>"
      2 _ 0 _ _ _
      "[(Num 1, [1], 1, 2), (Num 1, [2], 2, 4)]" "(0, 1, 1, 1)" 3 2 "([1], [1], [0])"
      "[[''k1'', ''k2'', ''k3'']]" "Num 1" "[ex_output]" "''Val''" 1 m5]
    ev ex_forward_eval le
  have p2: "avg_pool_size m5 = avg_pool_size ex_model_eval"
    by (simp add: ex_returned_def)
  from tr ev a0 ex_forward ex_training_step ex_forward_eval ex_log_train ex_log_eval p1 p2
  show ?thesis
    by simp
qed

section \<open>The training loss\<close>

text \<open>
  C4: with the loss function as the specification describes it, the loss of a training
  step is the mean, over the hop tuples that \<^verbatim>\<open>forward\<close> returned, of the supervised
  terms \<^verbatim>\<open>node_nll + knowledge_nll\<close>: their sum divided by the number of tuples, which
  is the number of hops executed and never more than \<^verbatim>\<open>max_hops\<close>. The rewards of the
  tuples do not occur in it.
\<close>

theorem training_loss_is_supervised_mean:
  assumes "loss_function cs = loss_function_spec breakdown"
    and "training_step cs m w b idx = Inr (m', w', loss)"
  shows "\<exists>m1 out n. forward cs m w b = Inr (m1, w', out) \<and> returned_result out \<noteq> []
           \<and> as_index (max_hops m) = Inr n \<and> length (returned_result out) \<le> nat n
           \<and> loss = sum_list (supervised_terms (returned_result out))
                    / real (length (returned_result out))"
proof -
  from training_step_Inr[OF assms(2)] obtain m1 out losses ld where
    fw: "forward cs m w b = Inr (m1, w', out)" and
    lf: "loss_function cs (returned_result out) = Inr (losses, ld)" and
    loss: "loss = sum_list losses / real (length losses)"
    by (elim exE conjE) simp
  from lf assms(1) have
    "losses = map (\<lambda>(p, r, node_nll', knowledge_nll'). node_nll' + knowledge_nll')
                (returned_result out)"
    by (auto simp: loss_function_spec_def)
  then have "losses = supervised_terms (returned_result out)"
    by (simp add: supervised_terms_def split_beta)
  with loss have eq: "loss = sum_list (supervised_terms (returned_result out))
                           / real (length (returned_result out))"
    by (simp add: supervised_terms_def)
  from forward_Inr[OF fw] obtain l v where
    wk: "walk cs m w b = Inr (w', l)" and v: "bound l = Some v" and
    res: "returned_result out = result l"
    by (elim exE conjE) (simp add: returned_result_def)
  from walk_linked[OF wk] obtain n where
    n: "as_index (max_hops m) = Inr n" "length (result l) \<le> nat n" and lk: "linked l"
    by (elim exE conjE) simp
  from lk v have "result l \<noteq> []"
    by (simp add: linked_def)
  with fw res n eq show ?thesis
    by (intro exI[of _ m1] exI[of _ out] exI[of _ n]) simp
qed

theorem training_loss_is_supervised_mean_witness:
  "loss_function ex_cs = loss_function_spec (\<lambda>res. [])
   \<and> map_sum id (snd \<circ> snd) (training_step ex_cs ex_model_stop 0 ex_batch 0) = Inr (9 / 2)
   \<and> forward ex_cs ex_model_stop 0 ex_batch = Inr (ex_model_stop, 2, ex_returned)
   \<and> max_hops ex_model_stop = PInt 4
   \<and> supervised_terms (returned_result ex_returned) = [3, 6]
   \<and> length (returned_result ex_returned) = 2
   \<and> (9 / 2 :: real) = sum_list (supervised_terms (returned_result ex_returned))
                        / real (length (returned_result ex_returned))"
proof -
  have lf: "loss_function ex_cs = loss_function_spec (\<lambda>res. [])"
    by (simp add: ex_cs_def loss_function_spec_def fun_eq_iff)
  from training_loss_is_supervised_mean[OF lf ex_training_step_stop]
    lf ex_training_step_stop ex_forward_stop
  show ?thesis
    by (simp add: ex_model_stop_def ex_returned_def supervised_terms_def returned_result_def)
qed

section \<open>The collaborators as the specification describes them\<close>

lemma hit_iff: "hit gold chosen \<longleftrightarrow> (\<exists>x. x \<in> set chosen \<and> x \<in> set gold)"
  by (auto simp: hit_def filter_empty_conv)

lemma hit_mono: "set xs \<subseteq> set ys \<Longrightarrow> hit gold xs \<Longrightarrow> hit gold ys"
  by (auto simp: hit_iff)

lemma top_items_mono:
  "k \<le> k' \<Longrightarrow> set (top_items (Top k) items) \<subseteq> set (top_items (Top k') items)"
  by (simp add: top_items_def set_take_subset_set_take)

lemma top_items_all: "set (top_items (Top k) items) \<subseteq> set (top_items TopAll items)"
  by (simp add: top_items_def set_take_subset)

lemma length_filter_mono:
  "(\<And>x. x \<in> set xs \<Longrightarrow> P x \<Longrightarrow> Q x) \<Longrightarrow> length (filter P xs) \<le> length (filter Q xs)"
  by (induction xs) auto

lemma topk_accuracy_mono:
  assumes "\<And>items. set (top_items c items) \<subseteq> set (top_items c' items)"
  shows "topk_accuracy c examples \<le> topk_accuracy c' examples"
proof -
  have "length (filter (\<lambda>ex. hit (fst ex) (top_items c (snd ex))) examples)
        \<le> length (filter (\<lambda>ex. hit (fst ex) (top_items c' (snd ex))) examples)"
    by (rule length_filter_mono) (erule hit_mono[OF assms])
  then show ?thesis
    by (simp add: topk_accuracy_def divide_right_mono)
qed

text \<open>
  C7: for any examples, each a gold set with a pool of scored items, the accuracies at
  the cut-offs are ordered: top-1 is at most top-5, top-5 at most top-10, and top-10 at
  most top-All.
\<close>

theorem topk_accuracy_chain:
  "topk_accuracy (Top 1) examples \<le> topk_accuracy (Top 5) examples
   \<and> topk_accuracy (Top 5) examples \<le> topk_accuracy (Top 10) examples
   \<and> topk_accuracy (Top 10) examples \<le> topk_accuracy TopAll examples"
  by (intro conjI topk_accuracy_mono top_items_mono top_items_all) simp_all

theorem topk_accuracy_chain_witness:
  "topk_accuracy (Top 1) ex_examples = 0
   \<and> topk_accuracy (Top 5) ex_examples = 1 / 2
   \<and> topk_accuracy (Top 10) ex_examples = 1 / 2
   \<and> topk_accuracy TopAll ex_examples = 1 / 2
   \<and> topk_accuracy (Top 1) ex_examples \<le> topk_accuracy (Top 5) ex_examples
   \<and> topk_accuracy (Top 5) ex_examples \<le> topk_accuracy (Top 10) ex_examples
   \<and> topk_accuracy (Top 10) ex_examples \<le> topk_accuracy TopAll ex_examples"
  using topk_accuracy_chain[of ex_examples]
  by (simp add: topk_accuracy_def top_items_def ranked_def hit_def ex_examples_def)

end
